theory Spec2Isabelle
  imports Main
begin

section \<open>Errors\<close>

text \<open>
  A thrown \<^verbatim>\<open>new Error(message)\<close> and a rejected promise are values: \<open>Inl (Error message)\<close>.
  A collaborator (the HTTP client, the chain provider, the contract binding) that rejects
  is modelled by the message of what it rejected with.
\<close>

datatype js_error = Error string

section \<open>JavaScript strings\<close>

text \<open>
  A JavaScript string is modelled as a \<^typ>\<open>string\<close>, one \<^typ>\<open>char\<close> per character.
  The model covers ASCII text, which is what addresses, selectors and hex results are made of.
\<close>

text \<open>\<^verbatim>\<open>String.prototype.toLowerCase\<close>: each of the letters A to Z moves to its
  lower-case letter; every other ASCII character stays.\<close>

definition toLowerCase_char :: "char \<Rightarrow> char" where
  "toLowerCase_char c =
     (case map_of (zip ''ABCDEFGHIJKLMNOPQRSTUVWXYZ'' ''abcdefghijklmnopqrstuvwxyz'') c of
        Some l \<Rightarrow> l
      | None \<Rightarrow> c)"

definition toLowerCase :: "string \<Rightarrow> string" where
  "toLowerCase s = map toLowerCase_char s"

text \<open>\<^verbatim>\<open>s.replace(/^0x/, "")\<close>: the pattern is anchored at the start, case sensitive and
  not global, so one leading \<^verbatim>\<open>0x\<close> is removed and nothing else.\<close>

definition replace_0x_prefix :: "string \<Rightarrow> string" where
  "replace_0x_prefix s = (if take 2 s = ''0x'' then drop 2 s else s)"

text \<open>\<^verbatim>\<open>s.padStart(targetLength, padString)\<close>: a string already long enough, or an empty
  filler, gives \<^verbatim>\<open>s\<close> back; otherwise the filler is repeated and cut to the missing length.\<close>

definition padStart :: "nat \<Rightarrow> string \<Rightarrow> string \<Rightarrow> string" where
  "padStart targetLength padString s =
     (if targetLength \<le> length s \<or> padString = [] then s
      else take (targetLength - length s)
             (concat (replicate (targetLength - length s) padString)) @ s)"

text \<open>\<^verbatim>\<open>s.slice(start, end)\<close>: a negative index counts from the end, both indices are
  clamped into the string, and an absent \<^verbatim>\<open>end\<close> is the length.\<close>

definition slice_index :: "nat \<Rightarrow> int \<Rightarrow> nat" where
  "slice_index len i = (if i < 0 then nat (max (int len + i) 0) else min (nat i) len)"

definition slice :: "int \<Rightarrow> int option \<Rightarrow> string \<Rightarrow> string" where
  "slice start end s =
     (let len = length s;
          from = slice_index len start;
          to = (case end of None \<Rightarrow> len | Some e \<Rightarrow> slice_index len e)
      in if to \<le> from then [] else take (to - from) (drop from s))"

section \<open>Address encoding and decoding\<close>

text \<open>\<^verbatim>\<open>encodeAddress\<close>: lower case first, then strip the prefix, then pad to 64.\<close>

definition encodeAddress :: "string \<Rightarrow> string" where
  "encodeAddress address =
     (let cleanAddress = replace_0x_prefix (toLowerCase address)
      in padStart 64 ''0'' cleanAddress)"

text \<open>\<^verbatim>\<open>decodeAddress\<close>: strip the prefix, keep the tail from index -40, prefix again.\<close>

definition decodeAddress :: "string \<Rightarrow> string" where
  "decodeAddress hexResult =
     (let cleanHex = replace_0x_prefix hexResult;
          addressHex = slice (- 40) None cleanHex
      in ''0x'' @ addressHex)"


text \<open>The wording of the specification for the address properties: a hex digit, and the
  last \<open>n\<close> characters of a string.\<close>

definition is_hex_char :: "char \<Rightarrow> bool" where
  "is_hex_char c = (c \<in> set ''0123456789abcdefABCDEF'')"

definition last_chars :: "nat \<Rightarrow> string \<Rightarrow> string" where
  "last_chars n s = rev (take n (rev s))"

text \<open>A syntactically valid 20-byte address: \<^verbatim>\<open>0x\<close> and forty hex digits of either case.\<close>

definition is_address :: "string \<Rightarrow> bool" where
  "is_address a = (length a = 42 \<and> take 2 a = ''0x'' \<and> list_all is_hex_char (drop 2 a))"

section \<open>Numbers as text\<close>

text \<open>
  \<^verbatim>\<open>String(n)\<close>, \<^verbatim>\<open>`${n}`\<close> and \<^verbatim>\<open>JSON.stringify(n)\<close> of an integer \<open>n\<close>: the decimal
  digits, with a minus sign when negative. JSON-RPC error codes and request ids are integers.
  JavaScript holds a number as a double: up to \<open>2^53\<close> in magnitude every integer is held
  exactly and printed digit by digit, which is what \<open>Number_toString\<close> computes. Beyond
  that JavaScript prints the shortest digits that identify the double (\<open>2^60\<close> as
  \<^verbatim>\<open>1152921504606847000\<close>) and from \<open>10^21\<close> on an exponent (\<^verbatim>\<open>1e+21\<close>); the model does not,
  so every statement about the text of a number is made for an \<open>exact_integer\<close>.
\<close>

definition exact_integer :: "int \<Rightarrow> bool" where
  "exact_integer n = (\<bar>n\<bar> \<le> 2 ^ 53)"

definition digit_char :: "nat \<Rightarrow> char" where
  "digit_char d = ''0123456789'' ! (d mod 10)"

function digits :: "nat \<Rightarrow> string" where
  "digits n = (if n < 10 then [digit_char n] else digits (n div 10) @ [digit_char (n mod 10)])"
  by pat_completeness auto
termination
  by (relation "measure id") auto

declare digits.simps [simp del]

definition Number_toString :: "int \<Rightarrow> string" where
  "Number_toString n = (if n < 0 then ''-'' @ digits (nat (- n)) else digits (nat n))"

section \<open>Configuration constants\<close>

definition polymarketExchange :: string where
  "polymarketExchange = ''0x4bFb41d5B3570DeFd03C39a9A4D8dE6Bd8B8982E''"

definition SAFE_PROXY_FACTORY_ADDRESS :: string where
  "SAFE_PROXY_FACTORY_ADDRESS = ''0xaacFeEa03eb1561C4e67d661e40682Bd20E3541b''"

definition COMPUTE_PROXY_ADDRESS_FUNCTION_SIGNATURE :: string where
  "COMPUTE_PROXY_ADDRESS_FUNCTION_SIGNATURE = ''computeProxyAddress(address)''"

text \<open>The four entries of \<^verbatim>\<open>ERROR_CODES\<close>.\<close>

definition RPC_REQUEST_FAILED :: string where
  "RPC_REQUEST_FAILED = ''RPC_REQUEST_FAILED''"

definition RPC_RESPONSE_EMPTY :: string where
  "RPC_RESPONSE_EMPTY = ''RPC_RESPONSE_EMPTY''"

definition RPC_ERROR :: string where
  "RPC_ERROR = ''RPC_ERROR''"

definition RPC_INVALID_RESULT :: string where
  "RPC_INVALID_RESULT = ''RPC_INVALID_RESULT''"

section \<open>JSON-RPC types\<close>

text \<open>
  The types of \<^verbatim>\<open>types.ts\<close>. Several of them share field names, so every field carries a
  prefix naming its record: \<open>err_\<close> for \<^verbatim>\<open>JsonRpcError\<close>, \<open>res_\<close> for \<^verbatim>\<open>JsonRpcResponse\<close>,
  \<open>call_\<close> for the first entry of \<^verbatim>\<open>EthCallParams\<close>, \<open>req_\<close> for \<^verbatim>\<open>JsonRpcRequest\<close>.
  An optional field \<^verbatim>\<open>f?: T\<close> is a \<open>T option\<close>. \<^verbatim>\<open>EthCallParams\<close> is a two-element tuple, a pair.
\<close>

typedecl unknown

record JsonRpcError =
  err_code :: int
  err_message :: string
  err_data :: "unknown option"

record JsonRpcResponse =
  res_jsonrpc :: "string option"
  res_result :: "string option"
  res_error :: "JsonRpcError option"
  res_id :: "int option"

record EthCall =
  call_to :: string
  call_data :: string

type_synonym EthCallParams = "EthCall \<times> string"

record JsonRpcRequest =
  req_jsonrpc :: string
  req_method :: string
  req_params :: EthCallParams
  req_id :: int

section \<open>JSON.stringify of a request\<close>

text \<open>
  \<^verbatim>\<open>JSON.stringify\<close> on a \<^verbatim>\<open>JsonRpcRequest\<close>: the fields in the order they were written,
  no white space, strings quoted. Inside a string the quote and the backslash are escaped,
  the control characters below 0x20 are \<^verbatim>\<open>\b \t \n \f \r\<close> or \<^verbatim>\<open>\u00XX\<close>, and every other
  ASCII character is itself.
\<close>

definition hex_digit :: "nat \<Rightarrow> char" where
  "hex_digit d = ''0123456789abcdef'' ! (d mod 16)"

definition quote_char :: "char \<Rightarrow> string" where
  "quote_char c =
     (if c = CHR 0x22 then [CHR 0x5C, CHR 0x22]
      else if c = CHR 0x5C then [CHR 0x5C, CHR 0x5C]
      else if c = CHR 0x08 then [CHR 0x5C, CHR ''b'']
      else if c = CHR 0x09 then [CHR 0x5C, CHR ''t'']
      else if c = CHR 0x0A then [CHR 0x5C, CHR ''n'']
      else if c = CHR 0x0C then [CHR 0x5C, CHR ''f'']
      else if c = CHR 0x0D then [CHR 0x5C, CHR ''r'']
      else if (of_char c :: nat) < 32
        then [CHR 0x5C, CHR ''u'', CHR ''0'', CHR ''0'',
              hex_digit ((of_char c :: nat) div 16), hex_digit (of_char c :: nat)]
      else [c])"

definition quote :: "string \<Rightarrow> string" where
  "quote s = [CHR 0x22] @ concat (map quote_char s) @ [CHR 0x22]"

definition JSON_stringify :: "JsonRpcRequest \<Rightarrow> string" where
  "JSON_stringify r =
     ''{'' @ quote ''jsonrpc'' @ '':'' @ quote (req_jsonrpc r) @
     '','' @ quote ''method'' @ '':'' @ quote (req_method r) @
     '','' @ quote ''params'' @ '':['' @
        ''{'' @ quote ''to'' @ '':'' @ quote (call_to (fst (req_params r))) @
        '','' @ quote ''data'' @ '':'' @ quote (call_data (fst (req_params r))) @ ''}'' @
        '','' @ quote (snd (req_params r)) @ '']'' @
     '','' @ quote ''id'' @ '':'' @ Number_toString (req_id r) @ ''}''"

section \<open>The HTTP client\<close>

text \<open>
  \<^verbatim>\<open>fetch(url, init)\<close> is the platform's. The model keeps what the code can observe: the
  request it hands over (\<open>http_method\<close> is the \<^verbatim>\<open>method\<close> field of the init object), whether
  the promise rejects, and of a response its \<^verbatim>\<open>ok\<close> flag and what \<^verbatim>\<open>response.json()\<close> gives,
  a rejection or the parsed body, which the code casts to \<^verbatim>\<open>JsonRpcResponse\<close>.
\<close>

record RequestInit =
  http_method :: string
  headers :: "(string \<times> string) list"
  body :: string

record Response =
  ok :: bool
  json :: "js_error + JsonRpcResponse"

text \<open>
  The state threaded through the calls is the list of requests sent so far, oldest first.
  The environment holds the two things the code does not own: the network, which answers a
  request knowing the earlier ones, and \<^verbatim>\<open>ethers.id\<close>, the keccak-256 hash of a text as a
  \<^verbatim>\<open>0x\<close>-prefixed hex string.
\<close>

type_synonym sent = "(string \<times> RequestInit) list"

record env =
  network :: "sent \<Rightarrow> string \<Rightarrow> RequestInit \<Rightarrow> js_error + Response"
  ethers_id :: "string \<Rightarrow> string"

definition fetch :: "env \<Rightarrow> string \<Rightarrow> RequestInit \<Rightarrow> sent \<Rightarrow> (js_error + Response) \<times> sent" where
  "fetch E url init log = (network E log url init, log @ [(url, init)])"

section \<open>safe.ts\<close>

definition postJsonRpc ::
  "env \<Rightarrow> string \<Rightarrow> JsonRpcRequest \<Rightarrow> sent \<Rightarrow> (js_error + JsonRpcResponse) \<times> sent" where
  "postJsonRpc E rpcUrl rpcRequest log =
     (case fetch E rpcUrl
             \<lparr>http_method = ''POST'',
              headers = [(''Content-Type'', ''application/json'')],
              body = JSON_stringify rpcRequest\<rparr> log of
        (Inl e, log') \<Rightarrow> (Inl e, log')
      | (Inr response, log') \<Rightarrow>
          if \<not> ok response then (Inl (Error RPC_REQUEST_FAILED), log')
          else (case json response of
                  Inl e \<Rightarrow> (Inl (Error RPC_RESPONSE_EMPTY), log')
                | Inr parsed \<Rightarrow> (Inr parsed, log')))"

text \<open>
  The chain provider of the vendor library: \<^verbatim>\<open>provider.getCode(address)\<close> resolves to the
  bytecode as a hex string, or rejects.
\<close>

record JsonRpcProvider =
  getCode :: "string \<Rightarrow> js_error + string"

text \<open>
  \<^verbatim>\<open>isGnosisSafe\<close> exists twice, in \<^verbatim>\<open>packages/polymarket/src/safe.ts\<close> and in
  \<^verbatim>\<open>src/polymarket.ts\<close>. The two differ only in how the provider is made
  (\<^verbatim>\<open>getJsonRpcProvider(rpcUrl)\<close> and \<^verbatim>\<open>new ethers.providers.JsonRpcProvider(rpcUrl)\<close>), which is
  the first argument here.
\<close>

definition isGnosisSafe ::
  "(string \<Rightarrow> JsonRpcProvider) \<Rightarrow> string \<Rightarrow> string \<Rightarrow> js_error + bool" where
  "isGnosisSafe getJsonRpcProvider address rpcUrl =
     (let provider = getJsonRpcProvider rpcUrl
      in case getCode provider address of
           Inl e \<Rightarrow> Inl e
         | Inr code \<Rightarrow> Inr (code \<noteq> ''0x''))"

text \<open>The options object of \<^verbatim>\<open>getSafeProxyAddress\<close>, fields prefixed \<open>opt_\<close>.\<close>

record Options =
  opt_safeProxyFactoryAddress :: "string option"
  opt_functionSignature :: "string option"

text \<open>\<^verbatim>\<open>options?.field\<close>: undefined when the options are, the field otherwise.\<close>

definition optional_chain :: "Options option \<Rightarrow> (Options \<Rightarrow> string option) \<Rightarrow> string option" where
  "optional_chain options field = (case options of None \<Rightarrow> None | Some opts \<Rightarrow> field opts)"

text \<open>\<^verbatim>\<open>value || fallback\<close> on a string that may be undefined: undefined and the empty string
  are falsy and give the fallback.\<close>

definition or_else :: "string option \<Rightarrow> string \<Rightarrow> string" where
  "or_else v fallback =
     (case v of None \<Rightarrow> fallback | Some s \<Rightarrow> if s = [] then fallback else s)"

definition getFunctionSelector :: "env \<Rightarrow> string \<Rightarrow> string" where
  "getFunctionSelector E functionSignature =
     (let hash = ethers_id E functionSignature in slice 0 (Some 10) hash)"

definition getSafeProxyAddress ::
  "env \<Rightarrow> string \<Rightarrow> string \<Rightarrow> Options option \<Rightarrow> sent \<Rightarrow> (js_error + string) \<times> sent" where
  "getSafeProxyAddress E rpcUrl walletAddress options log =
     (let functionSignature =
            or_else (optional_chain options opt_functionSignature)
              COMPUTE_PROXY_ADDRESS_FUNCTION_SIGNATURE;
          safeProxyFactoryAddress =
            or_else (optional_chain options opt_safeProxyFactoryAddress)
              SAFE_PROXY_FACTORY_ADDRESS;
          functionSelector = getFunctionSelector E functionSignature;
          encodedAddress = encodeAddress walletAddress;
          data = functionSelector @ encodedAddress;
          rpcRequest =
            \<lparr>req_jsonrpc = ''2.0'',
             req_method = ''eth_call'',
             req_params = (\<lparr>call_to = safeProxyFactoryAddress, call_data = data\<rparr>, ''latest''),
             req_id = 1\<rparr>
      in case postJsonRpc E rpcUrl rpcRequest log of
           (Inl e, log') \<Rightarrow> (Inl e, log')
         | (Inr rpcResponse, log') \<Rightarrow>
             (case res_error rpcResponse of
                Some err \<Rightarrow>
                  (Inl (Error (RPC_ERROR @ '':'' @ Number_toString (err_code err))), log')
              | None \<Rightarrow>
                  (case res_result rpcResponse of
                     None \<Rightarrow> (Inl (Error RPC_INVALID_RESULT), log')
                   | Some hexResult \<Rightarrow>
                       if hexResult = [] then (Inl (Error RPC_INVALID_RESULT), log')
                       else (Inr (decodeAddress hexResult), log'))))"

section \<open>polymarket.ts: the approval flow\<close>

text \<open>
  The class \<^verbatim>\<open>Polymarket\<close> holds a provider, a signer and a contract binding, all of the
  vendor library. Each call on them may change the chain and may reject, so it takes the
  state of the world \<open>'w\<close> and returns the new one with its outcome. Fields are prefixed by
  the record: \<open>fd_\<close> for the fee data, \<open>ov_\<close> for the overrides of the transaction, \<open>rc_\<close>
  for the receipt, \<open>tx_\<close> for the transaction response.
\<close>

record FeeData =
  fd_gasPrice :: "int option"

record Overrides =
  ov_gasPrice :: int
  ov_gasLimit :: int

record Receipt =
  rc_status :: "int option"

record 'w TransactionResponse =
  tx_wait :: "'w \<Rightarrow> (js_error + Receipt) \<times> 'w"

record 'w Polymarket =
  signer_address :: string
  provider_getFeeData :: "'w \<Rightarrow> (js_error + FeeData) \<times> 'w"
  ctfContract_setApprovalForAll ::
    "string \<Rightarrow> bool \<Rightarrow> Overrides \<Rightarrow> 'w \<Rightarrow> (js_error + 'w TransactionResponse) \<times> 'w"
  ctfContract_isApprovedForAll :: "string \<Rightarrow> string \<Rightarrow> 'w \<Rightarrow> (js_error + bool) \<times> 'w"

text \<open>Division of big integers rounds towards zero.\<close>

definition bigint_div :: "int \<Rightarrow> int \<Rightarrow> int" where
  "bigint_div a b = sgn a * sgn b * (\<bar>a\<bar> div \<bar>b\<bar>)"

text \<open>\<^verbatim>\<open>parseUnits("50", "gwei")\<close>: fifty times ten to the ninth.\<close>

definition parseUnits_50_gwei :: int where
  "parseUnits_50_gwei = 50 * 10 ^ 9"

definition isApproved :: "'w Polymarket \<Rightarrow> 'w \<Rightarrow> (js_error + bool) \<times> 'w" where
  "isApproved P w = ctfContract_isApprovedForAll P (signer_address P) polymarketExchange w"

text \<open>
  \<^verbatim>\<open>approvalAll\<close> of \<^verbatim>\<open>src/polymarket.ts\<close>. The gas price of the fee data is a
  \<^verbatim>\<open>BigNumber\<close> object or null, so the test \<^verbatim>\<open>feeData.gasPrice ? ... : ...\<close> asks whether it
  is there. \<^verbatim>\<open>receipt.status === 1\<close> holds for the number 1 only, and \<^verbatim>\<open>&&\<close> asks
  \<^verbatim>\<open>isApproved\<close> only after it.
\<close>

definition approvalAll :: "'w Polymarket \<Rightarrow> 'w \<Rightarrow> (js_error + bool) \<times> 'w" where
  "approvalAll P w =
     (case provider_getFeeData P w of
        (Inl e, w1) \<Rightarrow> (Inl e, w1)
      | (Inr feeData, w1) \<Rightarrow>
          (let gasPrice = (case fd_gasPrice feeData of
                             Some g \<Rightarrow> bigint_div (g * 150) 100
                           | None \<Rightarrow> parseUnits_50_gwei)
           in case ctfContract_setApprovalForAll P polymarketExchange True
                     \<lparr>ov_gasPrice = gasPrice, ov_gasLimit = 100000\<rparr> w1 of
                (Inl e, w2) \<Rightarrow> (Inl e, w2)
              | (Inr tx, w2) \<Rightarrow>
                  (case tx_wait tx w2 of
                     (Inl e, w3) \<Rightarrow> (Inl e, w3)
                   | (Inr receipt, w3) \<Rightarrow>
                       if rc_status receipt = Some 1
                       then (case isApproved P w3 of
                               (Inl e, w4) \<Rightarrow> (Inl e, w4)
                             | (Inr approved, w4) \<Rightarrow>
                                 if approved then (Inr True, w4)
                                 else (Inl (Error ''Approval failed''), w4))
                       else (Inl (Error ''Approval failed''), w3))))"

text \<open>
  \<^verbatim>\<open>approvalAll\<close> of \<^verbatim>\<open>packages/polymarket/src/index.ts\<close>. Here the gas price is a
  \<^verbatim>\<open>bigint\<close> or null, and the \<^verbatim>\<open>bigint\<close> zero is falsy like null. The rest is the same.
\<close>

definition approvalAll_pkg :: "'w Polymarket \<Rightarrow> 'w \<Rightarrow> (js_error + bool) \<times> 'w" where
  "approvalAll_pkg P w =
     (case provider_getFeeData P w of
        (Inl e, w1) \<Rightarrow> (Inl e, w1)
      | (Inr feeData, w1) \<Rightarrow>
          (let gasPrice = (case fd_gasPrice feeData of
                             Some g \<Rightarrow>
                               if g = 0 then parseUnits_50_gwei else bigint_div (g * 150) 100
                           | None \<Rightarrow> parseUnits_50_gwei)
           in case ctfContract_setApprovalForAll P polymarketExchange True
                     \<lparr>ov_gasPrice = gasPrice, ov_gasLimit = 100000\<rparr> w1 of
                (Inl e, w2) \<Rightarrow> (Inl e, w2)
              | (Inr tx, w2) \<Rightarrow>
                  (case tx_wait tx w2 of
                     (Inl e, w3) \<Rightarrow> (Inl e, w3)
                   | (Inr receipt, w3) \<Rightarrow>
                       if rc_status receipt = Some 1
                       then (case isApproved P w3 of
                               (Inl e, w4) \<Rightarrow> (Inl e, w4)
                             | (Inr approved, w4) \<Rightarrow>
                                 if approved then (Inr True, w4)
                                 else (Inl (Error ''Approval failed''), w4))
                       else (Inl (Error ''Approval failed''), w3))))"

section \<open>Test doubles\<close>

text \<open>
  The mocks of the repository's test suite, used to run the model on concrete inputs. In
  \<^verbatim>\<open>getSafeProxyAddress.test.ts\<close> the hash function always returns one fixed hash and
  \<^verbatim>\<open>fetch\<close> resolves to one fixed response whatever is sent.
\<close>

definition mock_hash :: string where
  "mock_hash = ''0x1234567890abcdef1234567890abcdef1234567890abcdef1234567890abcdef''"

definition mock_env :: "Response \<Rightarrow> env" where
  "mock_env response =
     \<lparr>network = (\<lambda>log url init. Inr response), ethers_id = (\<lambda>functionSignature. mock_hash)\<rparr>"

text \<open>The response of the happy-path test: ok, with a 32-byte result.\<close>

definition mock_rpcResponse :: JsonRpcResponse where
  "mock_rpcResponse =
     \<lparr>res_jsonrpc = Some ''2.0'',
      res_result = Some ''0x0000000000000000000000001111222233334444555566667777888899990000'',
      res_error = None,
      res_id = Some 1\<rparr>"

definition mock_response :: Response where
  "mock_response = \<lparr>ok = True, json = Inr mock_rpcResponse\<rparr>"

text \<open>In \<^verbatim>\<open>isGnosisSafe.test.ts\<close> every provider answers \<^verbatim>\<open>getCode\<close> with one fixed code.\<close>

definition mock_provider :: "string \<Rightarrow> string \<Rightarrow> JsonRpcProvider" where
  "mock_provider code rpcUrl = \<lparr>getCode = (\<lambda>address. Inr code)\<rparr>"

text \<open>
  In the tests of the approval flow the fee data has no gas price, the transaction is
  mined with a given status and the approval check gives a given answer. The world is the
  number of transactions mined.
\<close>

definition mock_tx :: "int option \<Rightarrow> nat TransactionResponse" where
  "mock_tx status = \<lparr>tx_wait = (\<lambda>w. (Inr \<lparr>rc_status = status\<rparr>, Suc w))\<rparr>"

definition mock_polymarket :: "int option \<Rightarrow> bool \<Rightarrow> nat Polymarket" where
  "mock_polymarket status approved =
     \<lparr>signer_address = ''0xwallet'',
      provider_getFeeData = (\<lambda>w. (Inr \<lparr>fd_gasPrice = None\<rparr>, w)),
      ctfContract_setApprovalForAll = (\<lambda>operator ap overrides w. (Inr (mock_tx status), w)),
      ctfContract_isApprovedForAll = (\<lambda>account operator w. (Inr approved, w))\<rparr>"

section \<open>Facts about the string operations\<close>

lemma toLowerCase_append: "toLowerCase (p @ s) = toLowerCase p @ toLowerCase s"
  by (simp add: toLowerCase_def)

lemma length_toLowerCase: "length (toLowerCase s) = length s"
  by (simp add: toLowerCase_def)

lemma toLowerCase_hex_not_x: "is_hex_char c \<Longrightarrow> toLowerCase_char c \<noteq> CHR ''x''"
  by (auto simp: is_hex_char_def toLowerCase_char_def)

lemma hex_no_0x_prefix:
  assumes "list_all is_hex_char h"
  shows "take 2 (toLowerCase h) \<noteq> ''0x''"
proof (cases h)
  case Nil
  then show ?thesis by (simp add: toLowerCase_def)
next
  case (Cons a t)
  show ?thesis
  proof (cases t)
    case Nil
    with Cons show ?thesis by (simp add: toLowerCase_def)
  next
    case (Cons b u)
    with \<open>h = a # t\<close> assms have "is_hex_char b" by simp
    then have "toLowerCase_char b \<noteq> CHR ''x''" by (rule toLowerCase_hex_not_x)
    with Cons \<open>h = a # t\<close> show ?thesis by (simp add: toLowerCase_def)
  qed
qed

lemma toLowerCase_0x:
  "toLowerCase ''0x'' = ''0x''" "toLowerCase ''0X'' = ''0x''" "toLowerCase [] = []"
  by (simp_all add: toLowerCase_def toLowerCase_char_def)

lemma clean_address:
  assumes "list_all is_hex_char h" and "p = [] \<or> p = ''0x'' \<or> p = ''0X''"
  shows "replace_0x_prefix (toLowerCase (p @ h)) = toLowerCase h"
proof -
  from assms(2) consider "toLowerCase p = []" | "toLowerCase p = ''0x''"
    using toLowerCase_0x by blast
  then show ?thesis
  proof cases
    case 1
    with hex_no_0x_prefix [OF assms(1)] show ?thesis
      by (simp add: toLowerCase_append replace_0x_prefix_def)
  next
    case 2
    then show ?thesis by (simp add: toLowerCase_append replace_0x_prefix_def)
  qed
qed

lemma concat_replicate_single: "concat (replicate n [c]) = replicate n c"
  by (induction n) simp_all

lemma padStart_zero: "padStart n ''0'' s = replicate (n - length s) CHR ''0'' @ s"
  by (simp add: padStart_def concat_replicate_single)

lemma encodeAddress_general:
  "encodeAddress a =
     replicate (64 - length (replace_0x_prefix (toLowerCase a))) CHR ''0''
       @ replace_0x_prefix (toLowerCase a)"
  by (simp add: encodeAddress_def Let_def padStart_zero)

lemma encodeAddress_hex:
  assumes "length h = 40" and "list_all is_hex_char h" and "p = [] \<or> p = ''0x'' \<or> p = ''0X''"
  shows "encodeAddress (p @ h) = replicate 24 CHR ''0'' @ toLowerCase h"
proof -
  have "length (toLowerCase h) = 40" using assms(1) by (simp add: length_toLowerCase)
  then have "padStart 64 ''0'' (toLowerCase h) = replicate 24 CHR ''0'' @ toLowerCase h"
    by (simp add: padStart_zero)
  then show ?thesis
    by (simp add: encodeAddress_def clean_address [OF assms(2,3)])
qed

lemma slice_tail: "0 < n \<Longrightarrow> slice (- int n) None s = drop (length s - n) s"
proof -
  assume n: "0 < n"
  have idx: "slice_index (length s) (- int n) = length s - n"
    using n by (simp add: slice_index_def nat_diff_distrib')
  show ?thesis
  proof (cases "s = []")
    case True
    then show ?thesis by (simp add: slice_def Let_def)
  next
    case False
    with n have "length s - n < length s" by simp
    then show ?thesis by (simp add: slice_def Let_def idx)
  qed
qed

lemma last_chars_drop: "last_chars n s = drop (length s - n) s"
  by (simp add: last_chars_def take_rev)

lemma decodeAddress_tail:
  "decodeAddress s = ''0x'' @ last_chars 40 (replace_0x_prefix s)"
  using slice_tail [of 40] by (simp add: decodeAddress_def last_chars_drop Let_def)

section \<open>Address encoding\<close>

text \<open>
  Claim C6. For a 40-hex-character address \<open>h\<close> of any letter case, bare or behind a
  \<^verbatim>\<open>0x\<close> or \<^verbatim>\<open>0X\<close> prefix, \<open>encodeAddress\<close> returns 64 characters that do not start with
  \<^verbatim>\<open>0x\<close>; the last 40 are \<open>h\<close> in lower case and the first 24 are all \<^verbatim>\<open>0\<close>. Nothing is
  validated: any input \<open>a\<close> at all is lower-cased, stripped of one prefix and left-padded
  with zeros.
\<close>

theorem encodeAddress_padding:
  assumes "length h = 40" and "list_all is_hex_char h"
    and "p = [] \<or> p = ''0x'' \<or> p = ''0X''"
  shows "length (encodeAddress (p @ h)) = 64
       \<and> take 2 (encodeAddress (p @ h)) \<noteq> ''0x''
       \<and> last_chars 40 (encodeAddress (p @ h)) = toLowerCase h
       \<and> take 24 (encodeAddress (p @ h)) = replicate 24 CHR ''0''
       \<and> (\<exists>pad. set pad \<subseteq> {CHR ''0''}
              \<and> encodeAddress a = pad @ replace_0x_prefix (toLowerCase a))"
proof -
  let ?e = "encodeAddress (p @ h)"
  have e: "?e = replicate 24 CHR ''0'' @ toLowerCase h"
    using assms by (rule encodeAddress_hex)
  have len: "length (toLowerCase h) = 40"
    using assms(1) by (simp add: length_toLowerCase)
  have 1: "length ?e = 64" by (simp add: e len)
  have "take 2 ?e = ''00''" by (simp add: e numeral_2_eq_2 eval_nat_numeral)
  then have 2: "take 2 ?e \<noteq> ''0x''" by simp
  have 3: "last_chars 40 ?e = toLowerCase h" by (simp add: last_chars_drop e len)
  have 4: "take 24 ?e = replicate 24 CHR ''0''" by (simp add: e)
  have "set (replicate (64 - length (replace_0x_prefix (toLowerCase a))) CHR ''0'')
          \<subseteq> {CHR ''0''}"
    by auto
  with encodeAddress_general [of a]
  have 5: "\<exists>pad. set pad \<subseteq> {CHR ''0''} \<and> encodeAddress a = pad @ replace_0x_prefix (toLowerCase a)"
    by blast
  from 1 2 3 4 5 show ?thesis by blast
qed


theorem encodeAddress_padding_witness:
  "length ''AbC0000000000000000000000000000000000DeF'' = 40
   \<and> list_all is_hex_char ''AbC0000000000000000000000000000000000DeF''
   \<and> length (encodeAddress ''0xAbC0000000000000000000000000000000000DeF'') = 64
   \<and> last_chars 40 (encodeAddress ''0xAbC0000000000000000000000000000000000DeF'')
       = ''abc0000000000000000000000000000000000def''"
proof -
  let ?h = "''AbC0000000000000000000000000000000000DeF''"
  have h1: "length ?h = 40" by simp
  have h2: "list_all is_hex_char ?h" by (simp add: is_hex_char_def)
  have h3: "''0x'' = [] \<or> ''0x'' = ''0x'' \<or> ''0x'' = ''0X''" by simp
  have lower: "toLowerCase ?h = ''abc0000000000000000000000000000000000def''"
    by (simp add: toLowerCase_def toLowerCase_char_def)
  from encodeAddress_padding [OF h1 h2 h3] h1 h2 lower show ?thesis by simp
qed

section \<open>Address decoding\<close>

text \<open>
  Claim C7. \<open>decodeAddress\<close> returns \<^verbatim>\<open>0x\<close> followed by the last 40 characters of the input
  without its \<^verbatim>\<open>0x\<close> prefix, whether the prefix is there or not. The length is not checked:
  when fewer than 40 characters remain, all of them are returned behind \<^verbatim>\<open>0x\<close>.
\<close>

theorem decodeAddress_last_40:
  "decodeAddress (''0x'' @ c) = ''0x'' @ last_chars 40 c
   \<and> (take 2 s \<noteq> ''0x'' \<longrightarrow> decodeAddress s = ''0x'' @ last_chars 40 s)
   \<and> (length c < 40 \<longrightarrow> decodeAddress (''0x'' @ c) = ''0x'' @ c)
   \<and> (length s < 40 \<and> take 2 s \<noteq> ''0x'' \<longrightarrow> decodeAddress s = ''0x'' @ s)"
proof -
  have strip: "replace_0x_prefix (''0x'' @ c) = c"
    by (simp add: replace_0x_prefix_def)
  have keep: "take 2 s \<noteq> ''0x'' \<Longrightarrow> replace_0x_prefix s = s"
    by (simp add: replace_0x_prefix_def)
  have short: "length t < 40 \<Longrightarrow> last_chars 40 t = t" for t
    by (simp add: last_chars_drop)
  have 1: "decodeAddress (''0x'' @ c) = ''0x'' @ last_chars 40 c"
    using decodeAddress_tail [of "''0x'' @ c"] strip by simp
  have 2: "take 2 s \<noteq> ''0x'' \<longrightarrow> decodeAddress s = ''0x'' @ last_chars 40 s"
    using decodeAddress_tail [of s] keep by simp
  from 1 2 short show ?thesis by simp
qed

theorem decodeAddress_last_40_witness:
  "take 2 ''1234'' \<noteq> ''0x'' \<and> length ''1234'' < 40
   \<and> decodeAddress ''0x1234'' = ''0x1234'' \<and> decodeAddress ''1234'' = ''0x1234''"
  using decodeAddress_last_40 [of "''1234''" "''1234''"] by (simp add: last_chars_def)

section \<open>Round trip\<close>

text \<open>
  Claim C2. For a syntactically valid address, \<^verbatim>\<open>0x\<close> and 40 hex digits, decoding the
  encoding gives the address in lower case.
\<close>

theorem address_round_trip:
  assumes "is_address addr"
  shows "decodeAddress (encodeAddress addr) = toLowerCase addr"
proof -
  define h where "h = drop 2 addr"
  from assms have addr: "addr = ''0x'' @ h" and len: "length h = 40"
    and hex: "list_all is_hex_char h"
    unfolding h_def is_address_def by (metis append_take_drop_id, simp, simp)
  let ?e = "replicate 24 CHR ''0'' @ toLowerCase h"
  have e: "encodeAddress addr = ?e"
    unfolding addr using len hex by (rule encodeAddress_hex) simp
  have "take 2 ?e = ''00''" by (simp add: numeral_2_eq_2 eval_nat_numeral)
  then have "replace_0x_prefix ?e = ?e" by (simp add: replace_0x_prefix_def)
  then have "decodeAddress ?e = ''0x'' @ last_chars 40 ?e"
    using decodeAddress_tail [of ?e] by simp
  also have "last_chars 40 ?e = toLowerCase h"
    using len by (simp add: last_chars_drop length_toLowerCase)
  finally have "decodeAddress (encodeAddress addr) = ''0x'' @ toLowerCase h"
    by (simp add: e)
  then show ?thesis
    by (simp add: addr toLowerCase_append toLowerCase_0x del: append.simps)
qed

theorem address_round_trip_witness:
  "is_address ''0xAbC0000000000000000000000000000000000DeF''
   \<and> decodeAddress (encodeAddress ''0xAbC0000000000000000000000000000000000DeF'')
       = ''0xabc0000000000000000000000000000000000def''"
proof -
  have a: "is_address ''0xAbC0000000000000000000000000000000000DeF''"
    by (simp add: is_address_def is_hex_char_def)
  have lower: "toLowerCase ''0xAbC0000000000000000000000000000000000DeF''
                 = ''0xabc0000000000000000000000000000000000def''"
    by (simp add: toLowerCase_def toLowerCase_char_def)
  from address_round_trip [OF a] a lower show ?thesis by simp
qed

text \<open>A bare address of 40 hex digits comes back with the prefix added.\<close>

lemma bare_address_round_trip:
  assumes "length h = 40" and "list_all is_hex_char h"
  shows "decodeAddress (encodeAddress h) = ''0x'' @ toLowerCase h"
proof -
  let ?e = "replicate 24 CHR ''0'' @ toLowerCase h"
  have e: "encodeAddress h = ?e"
    using encodeAddress_hex [OF assms, of "[]"] by simp
  have "take 2 ?e = ''00''" by (simp add: numeral_2_eq_2 eval_nat_numeral)
  then have "replace_0x_prefix ?e = ?e" by (simp add: replace_0x_prefix_def)
  then have "decodeAddress ?e = ''0x'' @ last_chars 40 ?e"
    using decodeAddress_tail [of ?e] by simp
  also have "last_chars 40 ?e = toLowerCase h"
    using assms(1) by (simp add: last_chars_drop length_toLowerCase)
  finally show ?thesis by (simp add: e)
qed

section \<open>The JSON-RPC transport\<close>

text \<open>
  Claim C4. Given the HTTP response that \<^verbatim>\<open>fetch\<close> resolved to, \<open>postJsonRpc\<close> fails with
  \<^verbatim>\<open>RPC_REQUEST_FAILED\<close> exactly when the response is not ok, fails with
  \<^verbatim>\<open>RPC_RESPONSE_EMPTY\<close> exactly when it is ok and its body does not parse, and in the
  remaining case returns the parsed body.
\<close>

theorem postJsonRpc_failures:
  assumes "network E log rpcUrl
             \<lparr>http_method = ''POST'',
              headers = [(''Content-Type'', ''application/json'')],
              body = JSON_stringify rpcRequest\<rparr> = Inr response"
  shows "(fst (postJsonRpc E rpcUrl rpcRequest log) = Inl (Error ''RPC_REQUEST_FAILED'')
            \<longleftrightarrow> \<not> ok response)
       \<and> (fst (postJsonRpc E rpcUrl rpcRequest log) = Inl (Error ''RPC_RESPONSE_EMPTY'')
            \<longleftrightarrow> ok response \<and> isl (json response))
       \<and> (ok response \<and> json response = Inr parsed
            \<longrightarrow> fst (postJsonRpc E rpcUrl rpcRequest log) = Inr parsed)"
proof (cases "ok response")
  case False
  with assms show ?thesis
    by (simp add: postJsonRpc_def fetch_def RPC_REQUEST_FAILED_def RPC_RESPONSE_EMPTY_def)
next
  case True
  show ?thesis
  proof (cases "json response")
    case (Inl e)
    with True assms show ?thesis
      by (simp add: postJsonRpc_def fetch_def RPC_REQUEST_FAILED_def RPC_RESPONSE_EMPTY_def)
  next
    case (Inr b)
    with True assms show ?thesis
      by (simp add: postJsonRpc_def fetch_def)
  qed
qed

lemma postJsonRpc_fetch_rejected:
  assumes "network E log rpcUrl
             \<lparr>http_method = ''POST'',
              headers = [(''Content-Type'', ''application/json'')],
              body = JSON_stringify rpcRequest\<rparr> = Inl e"
  shows "fst (postJsonRpc E rpcUrl rpcRequest log) = Inl e"
  using assms by (simp add: postJsonRpc_def fetch_def)

lemma postJsonRpc_sent:
  "snd (postJsonRpc E rpcUrl rpcRequest log) =
     log @ [(rpcUrl, \<lparr>http_method = ''POST'',
                      headers = [(''Content-Type'', ''application/json'')],
                      body = JSON_stringify rpcRequest\<rparr>)]"
  by (simp add: postJsonRpc_def fetch_def split: sum.splits)

lemma postJsonRpc_parsed:
  assumes "\<forall>init. network E log rpcUrl init = Inr \<lparr>ok = True, json = Inr rpcResponse\<rparr>"
  shows "fst (postJsonRpc E rpcUrl rpcRequest log) = Inr rpcResponse"
  using assms by (simp add: postJsonRpc_def fetch_def)

lemma mock_env_network: "network (mock_env response) log url init = Inr response"
  by (simp add: mock_env_def)

theorem postJsonRpc_failures_witness:
  "fst (postJsonRpc (mock_env \<lparr>ok = False, json = Inr mock_rpcResponse\<rparr>)
          ''https://rpc.example''
          \<lparr>req_jsonrpc = ''2.0'', req_method = ''eth_call'',
           req_params = (\<lparr>call_to = ''0xaa'', call_data = ''0x12''\<rparr>, ''latest''),
           req_id = 1\<rparr> [])
     = Inl (Error ''RPC_REQUEST_FAILED'')
   \<and> fst (postJsonRpc (mock_env \<lparr>ok = True, json = Inl (Error ''Unexpected end of JSON input'')\<rparr>)
          ''https://rpc.example''
          \<lparr>req_jsonrpc = ''2.0'', req_method = ''eth_call'',
           req_params = (\<lparr>call_to = ''0xaa'', call_data = ''0x12''\<rparr>, ''latest''),
           req_id = 1\<rparr> [])
     = Inl (Error ''RPC_RESPONSE_EMPTY'')
   \<and> fst (postJsonRpc (mock_env mock_response)
          ''https://rpc.example''
          \<lparr>req_jsonrpc = ''2.0'', req_method = ''eth_call'',
           req_params = (\<lparr>call_to = ''0xaa'', call_data = ''0x12''\<rparr>, ''latest''),
           req_id = 1\<rparr> [])
     = Inr mock_rpcResponse"
proof -
  let ?q = "\<lparr>req_jsonrpc = ''2.0'', req_method = ''eth_call'',
             req_params = (\<lparr>call_to = ''0xaa'', call_data = ''0x12''\<rparr>, ''latest''),
             req_id = 1\<rparr>"
  let ?failed = "\<lparr>ok = False, json = Inr mock_rpcResponse\<rparr>"
  let ?empty = "\<lparr>ok = True, json = Inl (Error ''Unexpected end of JSON input'')\<rparr>"
  have 1: "fst (postJsonRpc (mock_env ?failed) ''https://rpc.example'' ?q [])
             = Inl (Error ''RPC_REQUEST_FAILED'')"
    using postJsonRpc_failures
      [where E = "mock_env ?failed" and log = "[]" and rpcUrl = "''https://rpc.example''"
         and rpcRequest = ?q and response = ?failed, OF mock_env_network]
    by simp
  have 2: "fst (postJsonRpc (mock_env ?empty) ''https://rpc.example'' ?q [])
             = Inl (Error ''RPC_RESPONSE_EMPTY'')"
    using postJsonRpc_failures
      [where E = "mock_env ?empty" and log = "[]" and rpcUrl = "''https://rpc.example''"
         and rpcRequest = ?q and response = ?empty, OF mock_env_network]
    by simp
  have 3: "fst (postJsonRpc (mock_env mock_response) ''https://rpc.example'' ?q [])
             = Inr mock_rpcResponse"
    using postJsonRpc_failures
      [where E = "mock_env mock_response" and log = "[]" and rpcUrl = "''https://rpc.example''"
         and rpcRequest = ?q and response = mock_response and parsed = mock_rpcResponse,
       OF mock_env_network]
    by (simp add: mock_response_def)
  from 1 2 3 show ?thesis by simp
qed

section \<open>Errors of the proxy address derivation\<close>

lemma getSafeProxyAddress_after_post:
  assumes "\<forall>init. network E log rpcUrl init = Inr \<lparr>ok = True, json = Inr rpcResponse\<rparr>"
  shows "fst (getSafeProxyAddress E rpcUrl walletAddress options log) =
           (case res_error rpcResponse of
              Some err \<Rightarrow> Inl (Error (RPC_ERROR @ '':'' @ Number_toString (err_code err)))
            | None \<Rightarrow>
                (case res_result rpcResponse of
                   None \<Rightarrow> Inl (Error RPC_INVALID_RESULT)
                 | Some hexResult \<Rightarrow>
                     if hexResult = [] then Inl (Error RPC_INVALID_RESULT)
                     else Inr (decodeAddress hexResult)))"
  using assms
  by (simp add: getSafeProxyAddress_def postJsonRpc_def fetch_def Let_def split: option.splits)

text \<open>
  Claim C3. When the parsed response carries an error object, \<open>getSafeProxyAddress\<close>
  fails with the message \<^verbatim>\<open>RPC_ERROR:\<close> followed by the error code as a number, whatever
  the result field holds. The code is an integer that a double holds exactly, at most
  \<open>2^53\<close> in magnitude, so that its text is its decimal digits.
\<close>

theorem rpc_error_takes_precedence:
  assumes "\<forall>init. network E log rpcUrl init = Inr \<lparr>ok = True, json = Inr rpcResponse\<rparr>"
    and "res_error rpcResponse = Some err"
    and "exact_integer (err_code err)"
  shows "fst (getSafeProxyAddress E rpcUrl walletAddress options log) =
           Inl (Error (''RPC_ERROR:'' @ Number_toString (err_code err)))"
  using getSafeProxyAddress_after_post [OF assms(1)] assms(2)
  by (simp add: RPC_ERROR_def)

text \<open>The decimal digits of a number, one division at a time.\<close>

lemma digits_small: "n < 10 \<Longrightarrow> digits n = [digit_char n]"
  by (simp add: digits.simps)

lemma digits_large: "\<not> n < 10 \<Longrightarrow> digits n = digits (n div 10) @ [digit_char (n mod 10)]"
  by (subst digits.simps) simp

lemma Number_toString_32000: "Number_toString (- 32000) = ''-32000''"
  by (simp add: Number_toString_def digits_small digits_large digit_char_def)

theorem rpc_error_takes_precedence_witness:
  "(\<forall>init. network
       (mock_env \<lparr>ok = True, json = Inr
          \<lparr>res_jsonrpc = Some ''2.0'',
           res_result = Some ''0x0000000000000000000000001111222233334444555566667777888899990000'',
           res_error = Some \<lparr>err_code = - 32000, err_message = ''error'', err_data = None\<rparr>,
           res_id = Some 1\<rparr>\<rparr>) [] ''https://rpc.example'' init
     = Inr \<lparr>ok = True, json = Inr
          \<lparr>res_jsonrpc = Some ''2.0'',
           res_result = Some ''0x0000000000000000000000001111222233334444555566667777888899990000'',
           res_error = Some \<lparr>err_code = - 32000, err_message = ''error'', err_data = None\<rparr>,
           res_id = Some 1\<rparr>\<rparr>)
   \<and> exact_integer (- 32000)
   \<and> fst (getSafeProxyAddress
       (mock_env \<lparr>ok = True, json = Inr
          \<lparr>res_jsonrpc = Some ''2.0'',
           res_result = Some ''0x0000000000000000000000001111222233334444555566667777888899990000'',
           res_error = Some \<lparr>err_code = - 32000, err_message = ''error'', err_data = None\<rparr>,
           res_id = Some 1\<rparr>\<rparr>) ''https://rpc.example'' ''0xabc'' None [])
     = Inl (Error ''RPC_ERROR:-32000'')"
proof -
  let ?err = "\<lparr>err_code = - 32000, err_message = ''error'', err_data = None\<rparr>"
  let ?resp = "\<lparr>res_jsonrpc = Some ''2.0'',
           res_result = Some ''0x0000000000000000000000001111222233334444555566667777888899990000'',
           res_error = Some ?err, res_id = Some 1\<rparr>"
  let ?E = "mock_env \<lparr>ok = True, json = Inr ?resp\<rparr>"
  have h1: "\<forall>init. network ?E [] ''https://rpc.example'' init = Inr \<lparr>ok = True, json = Inr ?resp\<rparr>"
    by (simp add: mock_env_def)
  have h2: "res_error ?resp = Some ?err" by simp
  have h3: "exact_integer (- 32000)" by (simp add: exact_integer_def)
  have h3': "exact_integer (err_code ?err)" using h3 by simp
  from rpc_error_takes_precedence [OF h1 h2 h3', of "''0xabc''" None] h1 h3 Number_toString_32000
  show ?thesis by simp
qed

text \<open>
  Claim C5. When the parsed response carries no error object and its result is absent or
  the empty string, \<open>getSafeProxyAddress\<close> fails with \<^verbatim>\<open>RPC_INVALID_RESULT\<close>.
\<close>

theorem rpc_invalid_result:
  assumes "\<forall>init. network E log rpcUrl init = Inr \<lparr>ok = True, json = Inr rpcResponse\<rparr>"
    and "res_error rpcResponse = None"
    and "res_result rpcResponse = None \<or> res_result rpcResponse = Some ''''"
  shows "fst (getSafeProxyAddress E rpcUrl walletAddress options log) =
           Inl (Error ''RPC_INVALID_RESULT'')"
  using getSafeProxyAddress_after_post [OF assms(1)] assms(2,3)
  by (auto simp: RPC_INVALID_RESULT_def)

theorem rpc_invalid_result_witness:
  "(\<forall>init. network
       (mock_env \<lparr>ok = True, json = Inr
          \<lparr>res_jsonrpc = Some ''2.0'', res_result = Some '''', res_error = None,
           res_id = Some 1\<rparr>\<rparr>) [] ''https://rpc.example'' init
     = Inr \<lparr>ok = True, json = Inr
          \<lparr>res_jsonrpc = Some ''2.0'', res_result = Some '''', res_error = None,
           res_id = Some 1\<rparr>\<rparr>)
   \<and> fst (getSafeProxyAddress
       (mock_env \<lparr>ok = True, json = Inr
          \<lparr>res_jsonrpc = Some ''2.0'', res_result = Some '''', res_error = None,
           res_id = Some 1\<rparr>\<rparr>) ''https://rpc.example'' ''0xabc'' None [])
     = Inl (Error ''RPC_INVALID_RESULT'')"
proof -
  let ?resp = "\<lparr>res_jsonrpc = Some ''2.0'', res_result = Some '''',
                res_error = None, res_id = Some 1\<rparr>"
  let ?E = "mock_env \<lparr>ok = True, json = Inr ?resp\<rparr>"
  have h1: "\<forall>init. network ?E [] ''https://rpc.example'' init = Inr \<lparr>ok = True, json = Inr ?resp\<rparr>"
    by (simp add: mock_env_def)
  have h2: "res_error ?resp = None" by simp
  have h3: "res_result ?resp = None \<or> res_result ?resp = Some ''''" by simp
  from rpc_invalid_result [OF h1 h2 h3, of "''0xabc''" None] h1
  show ?thesis by simp
qed

text \<open>The happy path of the test suite: the fixture's result decodes to the address the
  test expects.\<close>

lemma happy_path_fixture:
  "fst (getSafeProxyAddress (mock_env mock_response) ''https://rpc.example''
          ''0xAbC0000000000000000000000000000000000DeF'' None [])
     = Inr ''0x1111222233334444555566667777888899990000''"
proof -
  have "\<forall>init. network (mock_env mock_response) [] ''https://rpc.example'' init
          = Inr \<lparr>ok = True, json = Inr mock_rpcResponse\<rparr>"
    by (simp add: mock_env_def mock_response_def)
  from getSafeProxyAddress_after_post [OF this]
  show ?thesis
    by (simp add: mock_rpcResponse_def decodeAddress_tail replace_0x_prefix_def last_chars_def)
qed

section \<open>The request of the proxy address derivation\<close>

lemma slice_first: "slice 0 (Some (int n)) s = take n s"
  by (simp add: slice_def slice_index_def Let_def min_def)

lemma getFunctionSelector_take:
  "getFunctionSelector E functionSignature = take 10 (ethers_id E functionSignature)"
  using slice_first [of 10] by (simp add: getFunctionSelector_def)

lemma getSafeProxyAddress_sent:
  "snd (getSafeProxyAddress E rpcUrl walletAddress options log) =
     log @ [(rpcUrl,
        \<lparr>http_method = ''POST'',
         headers = [(''Content-Type'', ''application/json'')],
         body = JSON_stringify
           \<lparr>req_jsonrpc = ''2.0'',
            req_method = ''eth_call'',
            req_params =
              (\<lparr>call_to = or_else (optional_chain options opt_safeProxyFactoryAddress)
                            SAFE_PROXY_FACTORY_ADDRESS,
                call_data =
                  take 10 (ethers_id E (or_else (optional_chain options opt_functionSignature)
                                          COMPUTE_PROXY_ADDRESS_FUNCTION_SIGNATURE))
                  @ encodeAddress walletAddress\<rparr>,
               ''latest''),
            req_id = 1\<rparr>\<rparr>)]"
proof -
  let ?req = "\<lparr>req_jsonrpc = ''2.0'',
            req_method = ''eth_call'',
            req_params =
              (\<lparr>call_to = or_else (optional_chain options opt_safeProxyFactoryAddress)
                            SAFE_PROXY_FACTORY_ADDRESS,
                call_data =
                  getFunctionSelector E (or_else (optional_chain options opt_functionSignature)
                                          COMPUTE_PROXY_ADDRESS_FUNCTION_SIGNATURE)
                  @ encodeAddress walletAddress\<rparr>,
               ''latest''),
            req_id = 1\<rparr>"
  have "snd (getSafeProxyAddress E rpcUrl walletAddress options log)
          = snd (postJsonRpc E rpcUrl ?req log)"
    by (simp add: getSafeProxyAddress_def Let_def split: prod.splits sum.splits option.splits)
  then show ?thesis
    by (simp add: postJsonRpc_sent getFunctionSelector_take)
qed

text \<open>
  Claim C1, amended. Whatever the URL, the owner and the options, \<open>getSafeProxyAddress\<close>
  sends exactly one request, to the given URL: a POST with the JSON content type whose body
  is the serialised \<^verbatim>\<open>eth_call\<close> request with id 1 and block tag \<^verbatim>\<open>latest\<close>. Its \<^verbatim>\<open>data\<close> is the
  selector, the first ten characters of the hash of the signature, followed by the encoded
  owner address. The signature and the \<^verbatim>\<open>to\<close> address are the overrides of the options when
  these are given and not empty, and the defaults otherwise. Absent options count as both
  overrides absent.
\<close>

theorem getSafeProxyAddress_request:
  assumes "options = None \<and> factory = None \<and> signature = None
         \<or> options = Some \<lparr>opt_safeProxyFactoryAddress = factory,
                            opt_functionSignature = signature\<rparr>"
  shows "snd (getSafeProxyAddress E rpcUrl walletAddress options log) =
     log @ [(rpcUrl,
        \<lparr>http_method = ''POST'',
         headers = [(''Content-Type'', ''application/json'')],
         body = JSON_stringify
           \<lparr>req_jsonrpc = ''2.0'',
            req_method = ''eth_call'',
            req_params =
              (\<lparr>call_to =
                  (case factory of
                     Some a \<Rightarrow> if a = [] then ''0xaacFeEa03eb1561C4e67d661e40682Bd20E3541b'' else a
                   | None \<Rightarrow> ''0xaacFeEa03eb1561C4e67d661e40682Bd20E3541b''),
                call_data =
                  take 10 (ethers_id E
                    (case signature of
                       Some s \<Rightarrow> if s = [] then ''computeProxyAddress(address)'' else s
                     | None \<Rightarrow> ''computeProxyAddress(address)''))
                  @ encodeAddress walletAddress\<rparr>,
               ''latest''),
            req_id = 1\<rparr>\<rparr>)]"
proof -
  have f: "or_else (optional_chain options opt_safeProxyFactoryAddress) SAFE_PROXY_FACTORY_ADDRESS
        = (case factory of
             Some a \<Rightarrow> if a = [] then ''0xaacFeEa03eb1561C4e67d661e40682Bd20E3541b'' else a
           | None \<Rightarrow> ''0xaacFeEa03eb1561C4e67d661e40682Bd20E3541b'')"
    using assms
    by (auto simp: or_else_def optional_chain_def SAFE_PROXY_FACTORY_ADDRESS_def
             split: option.splits)
  have g: "or_else (optional_chain options opt_functionSignature)
             COMPUTE_PROXY_ADDRESS_FUNCTION_SIGNATURE
        = (case signature of
             Some s \<Rightarrow> if s = [] then ''computeProxyAddress(address)'' else s
           | None \<Rightarrow> ''computeProxyAddress(address)'')"
    using assms
    by (auto simp: or_else_def optional_chain_def COMPUTE_PROXY_ADDRESS_FUNCTION_SIGNATURE_def
             split: option.splits)
  show ?thesis
    unfolding getSafeProxyAddress_sent f g ..
qed

theorem getSafeProxyAddress_request_witness:
  "((None :: Options option) = None \<and> (None :: string option) = None \<and> (None :: string option) = None
     \<or> None = Some \<lparr>opt_safeProxyFactoryAddress = None, opt_functionSignature = None\<rparr>)
   \<and> snd (getSafeProxyAddress (mock_env mock_response) ''https://rpc.example''
            ''0xAbC0000000000000000000000000000000000DeF'' None []) =
     [(''https://rpc.example'',
        \<lparr>http_method = ''POST'',
         headers = [(''Content-Type'', ''application/json'')],
         body = JSON_stringify
           \<lparr>req_jsonrpc = ''2.0'',
            req_method = ''eth_call'',
            req_params =
              (\<lparr>call_to = ''0xaacFeEa03eb1561C4e67d661e40682Bd20E3541b'',
                call_data = ''0x12345678''
                  @ ''000000000000000000000000abc0000000000000000000000000000000000def''\<rparr>,
               ''latest''),
            req_id = 1\<rparr>\<rparr>)]"
proof -
  have h: "(None :: Options option) = None \<and> (None :: string option) = None
             \<and> (None :: string option) = None
         \<or> None = Some \<lparr>opt_safeProxyFactoryAddress = None, opt_functionSignature = None\<rparr>"
    by simp
  have enc: "encodeAddress ''0xAbC0000000000000000000000000000000000DeF''
               = ''000000000000000000000000abc0000000000000000000000000000000000def''"
  proof -
    have pad: "replicate 24 CHR ''0'' = ''000000000000000000000000''"
      by (simp add: eval_nat_numeral)
    show ?thesis
      by (simp add: encodeAddress_def toLowerCase_def toLowerCase_char_def
            replace_0x_prefix_def padStart_zero pad)
  qed
  have sel: "take 10 (ethers_id (mock_env mock_response) ''computeProxyAddress(address)'')
               = ''0x12345678''"
    by (simp add: mock_env_def mock_hash_def)
  from getSafeProxyAddress_request [OF h, of "mock_env mock_response" "''https://rpc.example''"
         "''0xAbC0000000000000000000000000000000000DeF''" "[]"]
  show ?thesis by (simp add: enc sel)
qed

text \<open>
  As stated, with the factory address taken from the options whenever it is given, the claim
  fails for the empty string: the request goes to the default factory.
\<close>

theorem getSafeProxyAddress_request_counterexample:
  "snd (getSafeProxyAddress (mock_env mock_response) ''https://rpc.example''
          ''0xAbC0000000000000000000000000000000000DeF''
          (Some \<lparr>opt_safeProxyFactoryAddress = Some '''', opt_functionSignature = None\<rparr>) [])
   = [(''https://rpc.example'',
        \<lparr>http_method = ''POST'',
         headers = [(''Content-Type'', ''application/json'')],
         body = JSON_stringify
           \<lparr>req_jsonrpc = ''2.0'',
            req_method = ''eth_call'',
            req_params =
              (\<lparr>call_to = ''0xaacFeEa03eb1561C4e67d661e40682Bd20E3541b'',
                call_data = take 10 (ethers_id (mock_env mock_response)
                                       ''computeProxyAddress(address)'')
                  @ encodeAddress ''0xAbC0000000000000000000000000000000000DeF''\<rparr>,
               ''latest''),
            req_id = 1\<rparr>\<rparr>)]
   \<and> snd (getSafeProxyAddress (mock_env mock_response) ''https://rpc.example''
          ''0xAbC0000000000000000000000000000000000DeF''
          (Some \<lparr>opt_safeProxyFactoryAddress = Some '''', opt_functionSignature = None\<rparr>) [])
   \<noteq> [(''https://rpc.example'',
        \<lparr>http_method = ''POST'',
         headers = [(''Content-Type'', ''application/json'')],
         body = JSON_stringify
           \<lparr>req_jsonrpc = ''2.0'',
            req_method = ''eth_call'',
            req_params =
              (\<lparr>call_to = '''',
                call_data = take 10 (ethers_id (mock_env mock_response)
                                       ''computeProxyAddress(address)'')
                  @ encodeAddress ''0xAbC0000000000000000000000000000000000DeF''\<rparr>,
               ''latest''),
            req_id = 1\<rparr>\<rparr>)]"
proof -
  have q: "quote ''0xaacFeEa03eb1561C4e67d661e40682Bd20E3541b'' \<noteq> quote []"
    by (simp add: quote_def quote_char_def)
  show ?thesis
    unfolding getSafeProxyAddress_sent
    by (simp add: or_else_def optional_chain_def SAFE_PROXY_FACTORY_ADDRESS_def
          COMPUTE_PROXY_ADDRESS_FUNCTION_SIGNATURE_def JSON_stringify_def q)
qed

text \<open>
  Claim C10. An empty string given as the signature or as the factory address is ignored
  and the default is used instead. With the empty factory address the request sent goes to
  the default factory \<^verbatim>\<open>0xaacFeEa03eb1561C4e67d661e40682Bd20E3541b\<close>; with the empty signature
  its selector is the one of the default signature \<^verbatim>\<open>computeProxyAddress(address)\<close>. In both
  cases the whole call, result and request, is the call with the default given in its place.
\<close>

theorem empty_override_ignored:
  "snd (getSafeProxyAddress E rpcUrl walletAddress
          (Some \<lparr>opt_safeProxyFactoryAddress = Some '''', opt_functionSignature = signature\<rparr>)
          log) =
     log @ [(rpcUrl,
        \<lparr>http_method = ''POST'',
         headers = [(''Content-Type'', ''application/json'')],
         body = JSON_stringify
           \<lparr>req_jsonrpc = ''2.0'',
            req_method = ''eth_call'',
            req_params =
              (\<lparr>call_to = ''0xaacFeEa03eb1561C4e67d661e40682Bd20E3541b'',
                call_data =
                  take 10 (ethers_id E
                    (case signature of
                       Some s \<Rightarrow> if s = [] then ''computeProxyAddress(address)'' else s
                     | None \<Rightarrow> ''computeProxyAddress(address)''))
                  @ encodeAddress walletAddress\<rparr>,
               ''latest''),
            req_id = 1\<rparr>\<rparr>)]
   \<and> snd (getSafeProxyAddress E rpcUrl walletAddress
          (Some \<lparr>opt_safeProxyFactoryAddress = factory, opt_functionSignature = Some ''''\<rparr>)
          log) =
     log @ [(rpcUrl,
        \<lparr>http_method = ''POST'',
         headers = [(''Content-Type'', ''application/json'')],
         body = JSON_stringify
           \<lparr>req_jsonrpc = ''2.0'',
            req_method = ''eth_call'',
            req_params =
              (\<lparr>call_to =
                  (case factory of
                     Some a \<Rightarrow> if a = [] then ''0xaacFeEa03eb1561C4e67d661e40682Bd20E3541b'' else a
                   | None \<Rightarrow> ''0xaacFeEa03eb1561C4e67d661e40682Bd20E3541b''),
                call_data =
                  take 10 (ethers_id E ''computeProxyAddress(address)'')
                  @ encodeAddress walletAddress\<rparr>,
               ''latest''),
            req_id = 1\<rparr>\<rparr>)]
   \<and> getSafeProxyAddress E rpcUrl walletAddress
        (Some \<lparr>opt_safeProxyFactoryAddress = Some '''', opt_functionSignature = signature\<rparr>) log
     = getSafeProxyAddress E rpcUrl walletAddress
        (Some \<lparr>opt_safeProxyFactoryAddress = Some ''0xaacFeEa03eb1561C4e67d661e40682Bd20E3541b'',
               opt_functionSignature = signature\<rparr>) log
   \<and> getSafeProxyAddress E rpcUrl walletAddress
        (Some \<lparr>opt_safeProxyFactoryAddress = factory, opt_functionSignature = Some ''''\<rparr>) log
     = getSafeProxyAddress E rpcUrl walletAddress
        (Some \<lparr>opt_safeProxyFactoryAddress = factory,
               opt_functionSignature = Some ''computeProxyAddress(address)''\<rparr>) log"
proof -
  have sent_factory:
    "snd (getSafeProxyAddress E rpcUrl walletAddress
          (Some \<lparr>opt_safeProxyFactoryAddress = Some '''', opt_functionSignature = signature\<rparr>)
          log) =
     log @ [(rpcUrl,
        \<lparr>http_method = ''POST'',
         headers = [(''Content-Type'', ''application/json'')],
         body = JSON_stringify
           \<lparr>req_jsonrpc = ''2.0'',
            req_method = ''eth_call'',
            req_params =
              (\<lparr>call_to = ''0xaacFeEa03eb1561C4e67d661e40682Bd20E3541b'',
                call_data =
                  take 10 (ethers_id E
                    (case signature of
                       Some s \<Rightarrow> if s = [] then ''computeProxyAddress(address)'' else s
                     | None \<Rightarrow> ''computeProxyAddress(address)''))
                  @ encodeAddress walletAddress\<rparr>,
               ''latest''),
            req_id = 1\<rparr>\<rparr>)]"
    unfolding getSafeProxyAddress_sent
    by (simp add: or_else_def optional_chain_def SAFE_PROXY_FACTORY_ADDRESS_def
          COMPUTE_PROXY_ADDRESS_FUNCTION_SIGNATURE_def split: option.splits)
  have sent_signature:
    "snd (getSafeProxyAddress E rpcUrl walletAddress
          (Some \<lparr>opt_safeProxyFactoryAddress = factory, opt_functionSignature = Some ''''\<rparr>)
          log) =
     log @ [(rpcUrl,
        \<lparr>http_method = ''POST'',
         headers = [(''Content-Type'', ''application/json'')],
         body = JSON_stringify
           \<lparr>req_jsonrpc = ''2.0'',
            req_method = ''eth_call'',
            req_params =
              (\<lparr>call_to =
                  (case factory of
                     Some a \<Rightarrow> if a = [] then ''0xaacFeEa03eb1561C4e67d661e40682Bd20E3541b'' else a
                   | None \<Rightarrow> ''0xaacFeEa03eb1561C4e67d661e40682Bd20E3541b''),
                call_data =
                  take 10 (ethers_id E ''computeProxyAddress(address)'')
                  @ encodeAddress walletAddress\<rparr>,
               ''latest''),
            req_id = 1\<rparr>\<rparr>)]"
    unfolding getSafeProxyAddress_sent
    by (simp add: or_else_def optional_chain_def SAFE_PROXY_FACTORY_ADDRESS_def
          COMPUTE_PROXY_ADDRESS_FUNCTION_SIGNATURE_def split: option.splits)
  have same_factory:
    "getSafeProxyAddress E rpcUrl walletAddress
        (Some \<lparr>opt_safeProxyFactoryAddress = Some '''', opt_functionSignature = signature\<rparr>) log
     = getSafeProxyAddress E rpcUrl walletAddress
        (Some \<lparr>opt_safeProxyFactoryAddress = Some ''0xaacFeEa03eb1561C4e67d661e40682Bd20E3541b'',
               opt_functionSignature = signature\<rparr>) log"
    by (simp add: getSafeProxyAddress_def or_else_def optional_chain_def
          SAFE_PROXY_FACTORY_ADDRESS_def)
  have same_signature:
    "getSafeProxyAddress E rpcUrl walletAddress
        (Some \<lparr>opt_safeProxyFactoryAddress = factory, opt_functionSignature = Some ''''\<rparr>) log
     = getSafeProxyAddress E rpcUrl walletAddress
        (Some \<lparr>opt_safeProxyFactoryAddress = factory,
               opt_functionSignature = Some ''computeProxyAddress(address)''\<rparr>) log"
    by (simp add: getSafeProxyAddress_def or_else_def optional_chain_def
          COMPUTE_PROXY_ADDRESS_FUNCTION_SIGNATURE_def)
  from sent_factory sent_signature same_factory same_signature show ?thesis
    by (intro conjI)
qed

theorem empty_override_ignored_witness:
  "snd (getSafeProxyAddress (mock_env mock_response) ''https://rpc.example''
          ''0xAbC0000000000000000000000000000000000DeF''
          (Some \<lparr>opt_safeProxyFactoryAddress = Some '''', opt_functionSignature = Some ''''\<rparr>) [])
   = [(''https://rpc.example'',
        \<lparr>http_method = ''POST'',
         headers = [(''Content-Type'', ''application/json'')],
         body = JSON_stringify
           \<lparr>req_jsonrpc = ''2.0'',
            req_method = ''eth_call'',
            req_params =
              (\<lparr>call_to = ''0xaacFeEa03eb1561C4e67d661e40682Bd20E3541b'',
                call_data =
                  take 10 (ethers_id (mock_env mock_response) ''computeProxyAddress(address)'')
                  @ encodeAddress ''0xAbC0000000000000000000000000000000000DeF''\<rparr>,
               ''latest''),
            req_id = 1\<rparr>\<rparr>)]"
  using empty_override_ignored
    [where E = "mock_env mock_response" and rpcUrl = "''https://rpc.example''"
       and walletAddress = "''0xAbC0000000000000000000000000000000000DeF''"
       and signature = "Some ''''" and factory = "Some ''''" and log = "[]",
     THEN conjunct1]
  by simp

section \<open>The contract-code probe\<close>

text \<open>
  Claim C8. For the code that the provider's \<^verbatim>\<open>getCode\<close> returns, \<open>isGnosisSafe\<close> is true
  if and only if the code differs from the string \<^verbatim>\<open>0x\<close>.
\<close>

theorem isGnosisSafe_iff_code:
  assumes "getCode (getJsonRpcProvider rpcUrl) address = Inr code"
  shows "isGnosisSafe getJsonRpcProvider address rpcUrl = Inr (code \<noteq> ''0x'')"
  using assms by (simp add: isGnosisSafe_def)

theorem isGnosisSafe_iff_code_witness:
  "getCode (mock_provider ''0x1234'' ''http://rpc'') ''0xdef'' = Inr ''0x1234''
   \<and> isGnosisSafe (mock_provider ''0x1234'') ''0xdef'' ''http://rpc'' = Inr True
   \<and> getCode (mock_provider ''0x'' ''http://rpc'') ''0xabc'' = Inr ''0x''
   \<and> isGnosisSafe (mock_provider ''0x'') ''0xabc'' ''http://rpc'' = Inr False"
proof -
  have h: "getCode (mock_provider ''0x1234'' ''http://rpc'') ''0xdef'' = Inr ''0x1234''"
    by (simp add: mock_provider_def)
  have k: "getCode (mock_provider ''0x'' ''http://rpc'') ''0xabc'' = Inr ''0x''"
    by (simp add: mock_provider_def)
  from isGnosisSafe_iff_code [of "mock_provider ''0x1234''" "''http://rpc''" "''0xdef''"
         "''0x1234''", OF h]
       isGnosisSafe_iff_code [of "mock_provider ''0x''" "''http://rpc''" "''0xabc''"
         "''0x''", OF k] h k
  show ?thesis by simp
qed

lemma isGnosisSafe_rejected:
  assumes "getCode (getJsonRpcProvider rpcUrl) address = Inl e"
  shows "isGnosisSafe getJsonRpcProvider address rpcUrl = Inl e"
  using assms by (simp add: isGnosisSafe_def)

section \<open>The approval flow\<close>

lemma approvalAll_after_receipt:
  assumes "provider_getFeeData P w = (Inr feeData, w1)"
    and "ctfContract_setApprovalForAll P polymarketExchange True
           \<lparr>ov_gasPrice = (case fd_gasPrice feeData of
                             Some g \<Rightarrow> bigint_div (g * 150) 100
                           | None \<Rightarrow> parseUnits_50_gwei),
            ov_gasLimit = 100000\<rparr> w1 = (Inr tx, w2)"
    and "tx_wait tx w2 = (Inr receipt, w3)"
  shows "fst (approvalAll P w) =
           (if rc_status receipt = Some 1
            then (case fst (isApproved P w3) of
                    Inl e \<Rightarrow> Inl e
                  | Inr approved \<Rightarrow>
                      if approved then Inr True else Inl (Error ''Approval failed''))
            else Inl (Error ''Approval failed''))"
  using assms
  by (simp add: approvalAll_def Let_def split: prod.splits sum.splits)

text \<open>
  Claim C9. Once the approval transaction is mined, \<open>approvalAll\<close> returns true exactly
  when the receipt has status 1 and the check of the approval that follows returns true;
  when the status is not 1 or the check returns false it fails with \<^verbatim>\<open>Approval failed\<close>.
\<close>

theorem approvalAll_outcome:
  assumes "provider_getFeeData P w = (Inr feeData, w1)"
    and "ctfContract_setApprovalForAll P polymarketExchange True
           \<lparr>ov_gasPrice = (case fd_gasPrice feeData of
                             Some g \<Rightarrow> bigint_div (g * 150) 100
                           | None \<Rightarrow> parseUnits_50_gwei),
            ov_gasLimit = 100000\<rparr> w1 = (Inr tx, w2)"
    and "tx_wait tx w2 = (Inr receipt, w3)"
  shows "(fst (approvalAll P w) = Inr True
            \<longleftrightarrow> rc_status receipt = Some 1 \<and> fst (isApproved P w3) = Inr True)
       \<and> (rc_status receipt \<noteq> Some 1 \<or> fst (isApproved P w3) = Inr False
            \<longrightarrow> fst (approvalAll P w) = Inl (Error ''Approval failed''))"
  unfolding approvalAll_after_receipt [OF assms]
  by (auto split: sum.splits)

lemma approvalAll_never_false: "fst (approvalAll P w) \<noteq> Inr False"
  by (simp add: approvalAll_def Let_def split: prod.splits sum.splits)

lemma approvalAll_true_only_if_mined:
  assumes "fst (approvalAll P w) = Inr True"
  shows "\<exists>feeData w1 tx w2 receipt w3.
           provider_getFeeData P w = (Inr feeData, w1)
         \<and> ctfContract_setApprovalForAll P polymarketExchange True
              \<lparr>ov_gasPrice = (case fd_gasPrice feeData of
                                Some g \<Rightarrow> bigint_div (g * 150) 100
                              | None \<Rightarrow> parseUnits_50_gwei),
               ov_gasLimit = 100000\<rparr> w1 = (Inr tx, w2)
         \<and> tx_wait tx w2 = (Inr receipt, w3)
         \<and> rc_status receipt = Some 1
         \<and> fst (isApproved P w3) = Inr True"
  using assms
  by (auto simp: approvalAll_def Let_def split: prod.splits sum.splits if_splits)

lemma mock_polymarket_steps:
  "provider_getFeeData (mock_polymarket status approved) 0 = (Inr \<lparr>fd_gasPrice = None\<rparr>, 0)"
  "ctfContract_setApprovalForAll (mock_polymarket status approved) polymarketExchange True
     \<lparr>ov_gasPrice = (case fd_gasPrice \<lparr>fd_gasPrice = None\<rparr> of
                       Some g \<Rightarrow> bigint_div (g * 150) 100
                     | None \<Rightarrow> parseUnits_50_gwei),
      ov_gasLimit = 100000\<rparr> 0 = (Inr (mock_tx status), 0)"
  "tx_wait (mock_tx status) 0 = (Inr \<lparr>rc_status = status\<rparr>, Suc 0)"
  "fst (isApproved (mock_polymarket status approved) (Suc 0)) = Inr approved"
  by (simp_all add: mock_polymarket_def mock_tx_def isApproved_def)

theorem approvalAll_outcome_witness:
  "provider_getFeeData (mock_polymarket (Some 1) True) 0 = (Inr \<lparr>fd_gasPrice = None\<rparr>, 0)
   \<and> ctfContract_setApprovalForAll (mock_polymarket (Some 1) True) polymarketExchange True
        \<lparr>ov_gasPrice = parseUnits_50_gwei, ov_gasLimit = 100000\<rparr> 0
       = (Inr (mock_tx (Some 1)), 0)
   \<and> tx_wait (mock_tx (Some 1)) 0 = (Inr \<lparr>rc_status = Some 1\<rparr>, Suc 0)
   \<and> fst (approvalAll (mock_polymarket (Some 1) True) 0) = Inr True
   \<and> fst (approvalAll (mock_polymarket (Some 0) True) 0) = Inl (Error ''Approval failed'')
   \<and> fst (approvalAll (mock_polymarket (Some 1) False) 0) = Inl (Error ''Approval failed'')"
proof -
  note ok = approvalAll_outcome
    [OF mock_polymarket_steps(1) [of "Some 1" True] mock_polymarket_steps(2) [of "Some 1" True]
        mock_polymarket_steps(3) [of "Some 1"]]
  note reverted = approvalAll_outcome
    [OF mock_polymarket_steps(1) [of "Some 0" True] mock_polymarket_steps(2) [of "Some 0" True]
        mock_polymarket_steps(3) [of "Some 0"]]
  note refused = approvalAll_outcome
    [OF mock_polymarket_steps(1) [of "Some 1" False] mock_polymarket_steps(2) [of "Some 1" False]
        mock_polymarket_steps(3) [of "Some 1"]]
  have 1: "fst (approvalAll (mock_polymarket (Some 1) True) 0) = Inr True"
    using ok by (simp add: mock_polymarket_steps(4))
  have 2: "fst (approvalAll (mock_polymarket (Some 0) True) 0) = Inl (Error ''Approval failed'')"
    using reverted by simp
  have 3: "fst (approvalAll (mock_polymarket (Some 1) False) 0) = Inl (Error ''Approval failed'')"
    using refused by (simp add: mock_polymarket_steps(4))
  from 1 2 3 mock_polymarket_steps(1) [of "Some 1" True]
    mock_polymarket_steps(2) [of "Some 1" True] mock_polymarket_steps(3) [of "Some 1"]
  show ?thesis by simp
qed

text \<open>The copy in the package behaves the same once the receipt is there.\<close>

lemma approvalAll_pkg_outcome:
  assumes "provider_getFeeData P w = (Inr feeData, w1)"
    and "ctfContract_setApprovalForAll P polymarketExchange True
           \<lparr>ov_gasPrice = (case fd_gasPrice feeData of
                             Some g \<Rightarrow>
                               if g = 0 then parseUnits_50_gwei else bigint_div (g * 150) 100
                           | None \<Rightarrow> parseUnits_50_gwei),
            ov_gasLimit = 100000\<rparr> w1 = (Inr tx, w2)"
    and "tx_wait tx w2 = (Inr receipt, w3)"
  shows "(fst (approvalAll_pkg P w) = Inr True
            \<longleftrightarrow> rc_status receipt = Some 1 \<and> fst (isApproved P w3) = Inr True)
       \<and> (rc_status receipt \<noteq> Some 1 \<or> fst (isApproved P w3) = Inr False
            \<longrightarrow> fst (approvalAll_pkg P w) = Inl (Error ''Approval failed''))"
proof -
  have "fst (approvalAll_pkg P w) =
           (if rc_status receipt = Some 1
            then (case fst (isApproved P w3) of
                    Inl e \<Rightarrow> Inl e
                  | Inr approved \<Rightarrow>
                      if approved then Inr True else Inl (Error ''Approval failed''))
            else Inl (Error ''Approval failed''))"
    using assms
    by (simp add: approvalAll_pkg_def Let_def split: prod.splits sum.splits)
  then show ?thesis by (auto split: sum.splits)
qed

end
